theory Spec2Isabelle
  imports Main "HOL-Library.Word"
begin

section \<open>JavaScript strings and values\<close>

text \<open>
  A JavaScript string is a sequence of UTF-16 code units, and \<^verbatim>\<open>length\<close> counts code
  units. \<^verbatim>\<open>String.prototype.trim\<close> strips the ECMAScript WhiteSpace and LineTerminator
  code points from both ends; all of them lie in the Basic Multilingual Plane, so the
  test is on a single code unit.
\<close>

type_synonym jsstring = "16 word list"

definition isWhiteSpace :: "16 word \<Rightarrow> bool" where
  "isWhiteSpace c \<longleftrightarrow>
     c = 9 \<or> c = 10 \<or> c = 11 \<or> c = 12 \<or> c = 13 \<or> c = 32 \<or> c = 160 \<or> c = 5760 \<or>
     (8192 \<le> c \<and> c \<le> 8202) \<or> c = 8232 \<or> c = 8233 \<or> c = 8239 \<or> c = 8287 \<or>
     c = 12288 \<or> c = 65279"

definition trim :: "jsstring \<Rightarrow> jsstring" where
  "trim s = rev (dropWhile isWhiteSpace (rev (dropWhile isWhiteSpace s)))"

text \<open>
  The argument \<^verbatim>\<open>content\<close> of \<^verbatim>\<open>sendMessage\<close> is dynamically typed. The model keeps
  the JavaScript types apart; numbers are integers here (NaN, the other falsy number, is
  not represented), and every object is truthy.
\<close>

datatype js_value =
    JSUndefined
  | JSNull
  | JSBool bool
  | JSNum int
  | JSStr jsstring
  | JSObj

fun truthy :: "js_value \<Rightarrow> bool" where
  "truthy JSUndefined = False"
| "truthy JSNull = False"
| "truthy (JSBool b) = b"
| "truthy (JSNum n) = (n \<noteq> 0)"
| "truthy (JSStr s) = (s \<noteq> [])"
| "truthy JSObj = True"

text \<open>
  Identifiers (conversation ids, message ids) arrive from the server as JSON numbers or
  strings; the client creates string ids. \<^verbatim>\<open>null\<close> and \<^verbatim>\<open>undefined\<close> are \<open>None\<close> of
  \<open>js_id option\<close>. Equality of the datatype is JavaScript's strict equality.
\<close>

datatype js_id = NumId int | StrId jsstring

fun truthy_id :: "js_id option \<Rightarrow> bool" where
  "truthy_id None = False"
| "truthy_id (Some (NumId n)) = (n \<noteq> 0)"
| "truthy_id (Some (StrId s)) = (s \<noteq> [])"

section \<open>ChatbotClient.js: the transport wrapper\<close>

subsection \<open>Retry configuration and the rate-limit tracker\<close>

definition maxRetries :: nat where
  "maxRetries = 3"

definition retryDelay :: nat where
  "retryDelay = 1000"

definition backoffMultiplier :: nat where
  "backoffMultiplier = 2"

text \<open>
  \<^verbatim>\<open>rateLimitTracker\<close>: the list of request timestamps (milliseconds, as \<^verbatim>\<open>Date.now()\<close>
  gives them) and the constant ceiling. Both operations read the clock; the reading is
  the argument \<open>now\<close>.
\<close>

record rateLimitTracker =
  requests :: "int list"

definition maxPerMinute :: nat where
  "maxPerMinute = 100"

definition canMakeRequest :: "int \<Rightarrow> rateLimitTracker \<Rightarrow> bool \<times> rateLimitTracker" where
  "canMakeRequest now tr =
     (let oneMinuteAgo = now - 60000;
          tr' = tr\<lparr>requests := filter (\<lambda>timestamp. timestamp > oneMinuteAgo) (requests tr)\<rparr>
      in (length (requests tr') < maxPerMinute, tr'))"

definition recordRequest :: "int \<Rightarrow> rateLimitTracker \<Rightarrow> rateLimitTracker" where
  "recordRequest now tr = tr\<lparr>requests := requests tr @ [now]\<rparr>"

text \<open>
  One check-then-record operation, as the request interceptor performs it: the request
  is recorded only when the check succeeds. The two clock readings are separate calls of
  \<^verbatim>\<open>Date.now()\<close>, so they are separate arguments.
\<close>

definition check_then_record :: "rateLimitTracker \<Rightarrow> int \<times> int \<Rightarrow> rateLimitTracker" where
  "check_then_record tr ts =
     (case canMakeRequest (fst ts) tr of
        (ok, tr') \<Rightarrow> if ok then recordRequest (snd ts) tr' else tr')"

definition window :: "int \<Rightarrow> rateLimitTracker \<Rightarrow> int list" where
  "window now tr = filter (\<lambda>timestamp. timestamp > now - 60000) (requests tr)"

subsection \<open>Errors\<close>

datatype error_code =
    INVALID_INPUT
  | MESSAGE_TOO_LONG
  | RATE_LIMITED
  | VALIDATION_ERROR
  | UNAUTHORIZED
  | TIMEOUT
  | NETWORK_ERROR
  | SERVICE_ERROR
  | UNKNOWN_ERROR
  | INVALID_RESPONSE

text \<open>
  The request configuration carries the retry counter \<^verbatim>\<open>_retryCount\<close> that the response
  interceptor writes on it (\<open>None\<close> is \<^verbatim>\<open>undefined\<close>). The other fields of the
  configuration (url, payload, headers) decide nothing in the wrapper.
\<close>

record request_config =
  retryCount :: "nat option"

text \<open>
  What a \<^verbatim>\<open>catch\<close> can receive. The wrapper reads four things of an error: whether it is
  a \<^verbatim>\<open>ChatbotError\<close> (and its code), \<^verbatim>\<open>error.response?.status\<close>, whether
  \<^verbatim>\<open>error.code\<close> is \<^verbatim>\<open>'ECONNABORTED'\<close>, and \<^verbatim>\<open>error.config\<close>. An error of the HTTP
  library has a configuration; a plain \<^verbatim>\<open>Error\<close> and a \<^verbatim>\<open>TypeError\<close> have neither
  response, code nor configuration. Message texts and detail objects are not modelled,
  except the text of the plain \<^verbatim>\<open>Error\<close>.
\<close>

datatype js_error =
    ChatbotError error_code
  | AxiosError "nat option" bool request_config
  | PlainError string
  | TypeError

fun response_status :: "js_error \<Rightarrow> nat option" where
  "response_status (AxiosError st ab cfg) = st"
| "response_status e = None"

fun code_ECONNABORTED :: "js_error \<Rightarrow> bool" where
  "code_ECONNABORTED (AxiosError st ab cfg) = ab"
| "code_ECONNABORTED e = False"

fun config :: "js_error \<Rightarrow> request_config option" where
  "config (AxiosError st ab cfg) = Some cfg"
| "config e = None"

text \<open>
  \<^verbatim>\<open>shouldRetry\<close>. A comparison with \<^verbatim>\<open>undefined\<close> is false, which is the \<open>None\<close>
  branch of the first test.
\<close>

definition shouldRetry :: "js_error \<Rightarrow> bool" where
  "shouldRetry error =
     (if (case response_status error of
            Some st \<Rightarrow> st \<ge> 400 \<and> st < 500 \<and> st \<noteq> 429
          | None \<Rightarrow> False)
      then False
      else (response_status error = None \<or>
            code_ECONNABORTED error \<or>
            (case response_status error of Some st \<Rightarrow> st \<ge> 500 | None \<Rightarrow> False)))"

subsection \<open>The response interceptor's error handler\<close>

text \<open>
  The handler either throws or waits \<open>delay\<close> milliseconds and sends the request again
  with the updated configuration. \<open>on_rejected\<close> is the handler up to that point; the
  resend is in \<open>chatbotClient\<close> below. Reading \<^verbatim>\<open>_retryCount\<close> of an undefined
  \<^verbatim>\<open>error.config\<close> throws a \<^verbatim>\<open>TypeError\<close>; the read happens only after \<^verbatim>\<open>shouldRetry\<close>
  returned true (\<^verbatim>\<open>&&\<close> short-circuits).
\<close>

datatype decision = Throw js_error | Retry request_config nat

definition on_rejected :: "js_error \<Rightarrow> decision" where
  "on_rejected error =
     (let originalRequest = config error in
      if response_status error = Some 401 then Throw error
      else if response_status error = Some 429 then Throw (ChatbotError RATE_LIMITED)
      else if response_status error = Some 422 then Throw (ChatbotError VALIDATION_ERROR)
      else if shouldRetry error then
        (case originalRequest of
           None \<Rightarrow> Throw TypeError
         | Some cfg \<Rightarrow>
             (let cfg0 = (if retryCount cfg = None \<or> retryCount cfg = Some 0
                          then cfg\<lparr>retryCount := Some 0\<rparr> else cfg)
              in case retryCount cfg0 of
                   None \<Rightarrow> Throw error
                 | Some n \<Rightarrow>
                     if n < maxRetries
                     then Retry (cfg0\<lparr>retryCount := Some (n + 1)\<rparr>)
                                (retryDelay * backoffMultiplier ^ (n + 1 - 1))
                     else Throw error))
      else Throw error)"

subsection \<open>The network and the client\<close>

text \<open>
  The server and the transport are the environment: \<open>server net n\<close> is what happens to
  the \<open>n\<close>-th request that reaches the network (counting from 0) and \<open>elapsed net n\<close>
  the milliseconds it takes. The HTTP library resolves a response whose status is in
  200..299 and rejects every other outcome with an error that carries the request
  configuration; a timeout has the code \<^verbatim>\<open>ECONNABORTED\<close> and no response.
\<close>

record response_data =
  reply :: "jsstring option"
  conversation_id :: "js_id option"
  message_id :: "js_id option"

datatype outcome = Response nat response_data | NoResponse | Timeout

record network =
  server :: "nat \<Rightarrow> outcome"
  elapsed :: "nat \<Rightarrow> nat"

text \<open>
  The mutable world of the client: the clock, the module-level tracker, the number of
  requests that reached the network, and the retry delays waited so far (oldest first).
\<close>

record world =
  clock :: int
  tracker :: rateLimitTracker
  calls :: nat
  delays :: "nat list"

text \<open>The request interceptor: the local rate check, then the recording.\<close>

definition request_fulfilled :: "request_config \<Rightarrow> world \<Rightarrow> (js_error + request_config) \<times> world" where
  "request_fulfilled cfg w =
     (case canMakeRequest (clock w) (tracker w) of
        (ok, tr') \<Rightarrow>
          if \<not> ok
          then (Inl (PlainError ''Rate limit exceeded. Please slow down your requests.''),
                w\<lparr>tracker := tr'\<rparr>)
          else (Inr cfg, w\<lparr>tracker := recordRequest (clock w) tr'\<rparr>))"

definition settle :: "outcome \<Rightarrow> request_config \<Rightarrow> js_error + response_data" where
  "settle out cfg =
     (case out of
        Response st body \<Rightarrow>
          if 200 \<le> st \<and> st < 300 then Inr body
          else Inl (AxiosError (Some st) False cfg)
      | NoResponse \<Rightarrow> Inl (AxiosError None False cfg)
      | Timeout \<Rightarrow> Inl (AxiosError None True cfg))"

definition dispatchRequest :: "network \<Rightarrow> request_config \<Rightarrow> world \<Rightarrow> (js_error + response_data) \<times> world" where
  "dispatchRequest net cfg w =
     (let n = calls w
      in (settle (server net n) cfg,
          w\<lparr>clock := clock w + int (elapsed net n), calls := n + 1\<rparr>))"

definition wait :: "nat \<Rightarrow> world \<Rightarrow> world" where
  "wait delay w = w\<lparr>clock := clock w + int delay, delays := delays w @ [delay]\<rparr>"

text \<open>
  The measure of the resend loop: the retries the configuration still allows.
\<close>

definition retries_left :: "request_config \<Rightarrow> nat" where
  "retries_left cfg = (case retryCount cfg of None \<Rightarrow> maxRetries + 1 | Some n \<Rightarrow> maxRetries + 1 - n)"

lemma on_rejected_Retry_config:
  assumes "on_rejected e = Retry cfg' d"
  shows "\<exists>st ab cfg. e = AxiosError st ab cfg \<and> retries_left cfg' < retries_left cfg"
proof (cases e)
  case (AxiosError st ab cfg)
  with assms show ?thesis
    by (auto simp: on_rejected_def retries_left_def maxRetries_def Let_def
             split: if_splits option.splits)
qed (use assms in \<open>auto simp: on_rejected_def shouldRetry_def split: if_splits\<close>)

lemma request_fulfilled_config:
  "request_fulfilled cfg w = (Inr cfg1, w1) \<Longrightarrow> cfg1 = cfg"
  by (auto simp: request_fulfilled_def split: prod.splits if_splits)

lemma request_fulfilled_error:
  "request_fulfilled cfg w = (Inl e, w1) \<Longrightarrow> config e = None"
  by (auto simp: request_fulfilled_def split: prod.splits if_splits)

lemma dispatchRequest_error:
  "dispatchRequest net cfg w = (Inl e, w2) \<Longrightarrow> \<exists>st ab. e = AxiosError st ab cfg"
  by (auto simp: dispatchRequest_def settle_def Let_def split: outcome.splits if_splits)

text \<open>
  \<^verbatim>\<open>chatbotClient(config)\<close>: the request interceptor, the network, the response
  interceptor. An error thrown by the request interceptor skips the network and reaches
  the response interceptor's error handler, as every rejection of the chain does. The
  handler's resend is a fresh call of the client, with its own pass through both
  interceptors; the HTTP library carries \<^verbatim>\<open>_retryCount\<close> over to the configuration of
  the resent request.
\<close>

function chatbotClient :: "network \<Rightarrow> request_config \<Rightarrow> world \<Rightarrow> (js_error + response_data) \<times> world" where
  "chatbotClient net cfg w =
     (case request_fulfilled cfg w of
        (Inl e, w1) \<Rightarrow>
          (case on_rejected e of
             Throw e' \<Rightarrow> (Inl e', w1)
           | Retry cfg' delay \<Rightarrow> chatbotClient net cfg' (wait delay w1))
      | (Inr cfg1, w1) \<Rightarrow>
          (case dispatchRequest net cfg1 w1 of
             (Inr response, w2) \<Rightarrow> (Inr response, w2)
           | (Inl e, w2) \<Rightarrow>
               (case on_rejected e of
                  Throw e' \<Rightarrow> (Inl e', w2)
                | Retry cfg' delay \<Rightarrow> chatbotClient net cfg' (wait delay w2))))"
  by pat_completeness auto
termination chatbotClient
proof (relation "measure (\<lambda>(net, cfg, w). retries_left cfg)")
  show "wf (measure (\<lambda>(net, cfg, w). retries_left cfg))" by simp
next
  fix net :: network and cfg w x1 w1 e cfg' delay
  assume "(x1, w1) = request_fulfilled cfg w" "x1 = Inl e" "on_rejected e = Retry cfg' delay"
  then have "config e = None"
    using request_fulfilled_error [of cfg w e w1] by simp
  moreover from \<open>on_rejected e = Retry cfg' delay\<close> obtain st ab c where "e = AxiosError st ab c"
    using on_rejected_Retry_config by blast
  ultimately show "((net, cfg', wait delay w1), (net, cfg, w)) \<in> measure (\<lambda>(net, cfg, w). retries_left cfg)"
    by simp
next
  fix net :: network and cfg w x1 w1 cfg1 x2 w2 e cfg' delay
  assume a: "(x1, w1) = request_fulfilled cfg w" "x1 = Inr cfg1"
    "(x2, w2) = dispatchRequest net cfg1 w1" "x2 = Inl e" "on_rejected e = Retry cfg' delay"
  from a(1,2) have "cfg1 = cfg"
    using request_fulfilled_config [of cfg w cfg1 w1] by simp
  moreover from a(3,4) obtain st ab where "e = AxiosError st ab cfg1"
    using dispatchRequest_error [of net cfg1 w1 e w2] by auto
  moreover from a(5) obtain st' ab' c where "e = AxiosError st' ab' c" "retries_left cfg' < retries_left c"
    using on_rejected_Retry_config by blast
  ultimately show "((net, cfg', wait delay w2), (net, cfg, w)) \<in> measure (\<lambda>(net, cfg, w). retries_left cfg)"
    by simp
qed

declare chatbotClient.simps [simp del]

subsection \<open>sendMessage\<close>

text \<open>
  What \<^verbatim>\<open>sendMessage\<close> returns on success: the reply and the ids of the response, in
  camelCase, and the time of the return. The echoed intent, the processing time and the
  metadata are passed through unread and are left out.
\<close>

record chat_reply =
  rp_reply :: jsstring
  rp_conversationId :: "js_id option"
  rp_messageId :: "js_id option"
  rp_timestamp :: int

text \<open>
  The input test \<^verbatim>\<open>!content || typeof content !== 'string' || content.trim().length === 0\<close>.
\<close>

definition invalid_input :: "js_value \<Rightarrow> bool" where
  "invalid_input content \<longleftrightarrow>
     \<not> truthy content \<or>
     (case content of JSStr s \<Rightarrow> length (trim s) = 0 | _ \<Rightarrow> True)"

fun content_length :: "js_value \<Rightarrow> nat" where
  "content_length (JSStr s) = length s"
| "content_length v = 0"

text \<open>
  The \<^verbatim>\<open>try\<close> block. \<^verbatim>\<open>chatbotClient.post\<close> starts from a configuration without
  \<^verbatim>\<open>_retryCount\<close>. The payload (the trimmed content, the conversation id, the intent,
  the metadata) does not influence the wrapper and is not part of the model.
\<close>

definition sendMessage_try :: "network \<Rightarrow> js_value \<Rightarrow> world \<Rightarrow> (js_error + chat_reply) \<times> world" where
  "sendMessage_try net content w =
     (if invalid_input content then (Inl (ChatbotError INVALID_INPUT), w)
      else if content_length content > 4000 then (Inl (ChatbotError MESSAGE_TOO_LONG), w)
      else
        (case chatbotClient net \<lparr>retryCount = None\<rparr> w of
           (Inl e, w') \<Rightarrow> (Inl e, w')
         | (Inr data, w') \<Rightarrow>
             (case reply data of
                None \<Rightarrow> (Inl (ChatbotError INVALID_RESPONSE), w')
              | Some r \<Rightarrow>
                  if r = [] then (Inl (ChatbotError INVALID_RESPONSE), w')
                  else (Inr \<lparr>rp_reply = r,
                             rp_conversationId = conversation_id data,
                             rp_messageId = message_id data,
                             rp_timestamp = clock w'\<rparr>, w'))))"

text \<open>The \<^verbatim>\<open>catch\<close> block: every error leaves as a \<^verbatim>\<open>ChatbotError\<close>.\<close>

definition sendMessage_catch :: "js_error \<Rightarrow> js_error" where
  "sendMessage_catch error =
     (case error of
        ChatbotError c \<Rightarrow> error
      | _ \<Rightarrow>
          if response_status error = Some 401 then ChatbotError UNAUTHORIZED
          else if response_status error = Some 422 then ChatbotError VALIDATION_ERROR
          else if response_status error = Some 429 then ChatbotError RATE_LIMITED
          else if (case response_status error of Some st \<Rightarrow> st \<ge> 500 | None \<Rightarrow> False)
            then ChatbotError SERVICE_ERROR
          else if code_ECONNABORTED error then ChatbotError TIMEOUT
          else if response_status error = None then ChatbotError NETWORK_ERROR
          else ChatbotError UNKNOWN_ERROR)"

definition sendMessage :: "network \<Rightarrow> js_value \<Rightarrow> world \<Rightarrow> (js_error + chat_reply) \<times> world" where
  "sendMessage net content w =
     (case sendMessage_try net content w of
        (Inl error, w') \<Rightarrow> (Inl (sendMessage_catch error), w')
      | (Inr r, w') \<Rightarrow> (Inr r, w'))"

subsection \<open>getStatus\<close>

text \<open>
  \<^verbatim>\<open>getStatus\<close> uses a client of its own, without interceptors: one request, no rate
  check, no retry. Its \<^verbatim>\<open>catch\<close> returns an object, so the result type has a place for
  a thrown error that the function never uses.
\<close>

record status_result =
  success :: bool
  status_of_error :: "nat option"

definition getStatus :: "network \<Rightarrow> world \<Rightarrow> (js_error + status_result) \<times> world" where
  "getStatus net w =
     (case dispatchRequest net \<lparr>retryCount = None\<rparr> w of
        (Inr data, w') \<Rightarrow> (Inr \<lparr>success = True, status_of_error = None\<rparr>, w')
      | (Inl error, w') \<Rightarrow>
          (Inr \<lparr>success = False, status_of_error = response_status error\<rparr>, w'))"

section \<open>ChatContext.jsx: the chat state store\<close>

subsection \<open>State\<close>

datatype message_type = USER | ASSISTANT | SYSTEM | ERROR

datatype conversation_status = ACTIVE | ARCHIVED | DELETED

datatype service_status = unknown | healthy | degraded | down

text \<open>
  A message. Timestamps are clock readings in milliseconds (the source stores their ISO
  rendering). \<open>msg_tempId\<close> is present on the user message of a successful send only;
  an absent \<^verbatim>\<open>isTemporary\<close> is falsy and is \<open>False\<close> here. Intent, metadata and
  processing time are carried along unread and are left out.
\<close>

record message =
  msg_id :: js_id
  msg_tempId :: "js_id option"
  msg_type :: message_type
  msg_content :: jsstring
  msg_timestamp :: int
  isTemporary :: bool
  msg_conversationId :: "js_id option"

record conversation =
  conv_id :: js_id
  title :: jsstring
  status :: conversation_status
  created_at :: int
  updated_at :: int
  message_count :: nat
  last_message :: jsstring

record rate_limit_info =
  remaining :: nat
  resetTime :: int
  info_maxPerMinute :: nat

text \<open>
  The text shown for an error: a literal of the source, the rate-limit sentence (whose
  number of seconds comes from the error's details), or the message of the error itself.
\<close>

datatype error_message = Fixed string | RateLimitWait | MessageOf js_error

record last_error =
  le_type :: error_code
  le_message :: "error_message option"
  le_timestamp :: int

text \<open>
  The payload of an action is dynamically typed. The model has one constructor for each
  shape a case of the reducer reads, and \<open>PNone\<close> for an action without payload
  (\<^verbatim>\<open>undefined\<close>). \<open>PId (StrId s)\<close> and \<open>PString s\<close> are the same JavaScript string.
\<close>

datatype payload =
    PNone
  | PSendStart js_id jsstring
  | PSendSuccess message message "js_id option"
  | PSendFailure error_code "error_message option"
  | PSetActive "js_id option" "message list option"
  | PConversations "conversation list"
  | PConversation conversation
  | PId js_id
  | PString jsstring
  | PBool bool
  | PStatus service_status "int option"
  | PRateLimit rate_limit_info

text \<open>
  The state. The reducer fills \<^verbatim>\<open>inputValue\<close>, \<^verbatim>\<open>isTyping\<close> and \<^verbatim>\<open>rateLimitInfo\<close> with the
  payload of an action as it is, whatever it is, and never reads them: these fields are
  payloads in the model too. The conversation list is read as an array (by the reducer
  and by the provider) and the model keeps it a list.
\<close>

record chat_state =
  activeConversation :: "js_id option"
  messages :: "message list"
  conversations :: "conversation list"
  inputValue :: payload
  isTyping :: payload
  isSending :: bool
  serviceStatus :: service_status
  lastHealthCheck :: "int option"
  rateLimitInfo :: payload
  error :: "error_message option"
  lastError :: "last_error option"

text \<open>\<^verbatim>\<open>initialState\<close>, created when the module is loaded at time \<open>now\<close>.\<close>

definition initialState :: "int \<Rightarrow> chat_state" where
  "initialState now =
     \<lparr>activeConversation = None, messages = [], conversations = [],
      inputValue = PString [], isTyping = PBool False, isSending = False,
      serviceStatus = unknown, lastHealthCheck = None,
      rateLimitInfo =
        PRateLimit \<lparr>remaining = 100, resetTime = now + 60000, info_maxPerMinute = 100\<rparr>,
      error = None, lastError = None\<rparr>"

subsection \<open>Actions\<close>

text \<open>An action is an object with a \<^verbatim>\<open>type\<close> string and a \<^verbatim>\<open>payload\<close>.\<close>

record action =
  act_type :: string
  act_payload :: payload

abbreviation SEND_MESSAGE_START :: string where
  "SEND_MESSAGE_START \<equiv> ''SEND_MESSAGE_START''"

abbreviation SEND_MESSAGE_SUCCESS :: string where
  "SEND_MESSAGE_SUCCESS \<equiv> ''SEND_MESSAGE_SUCCESS''"

abbreviation SEND_MESSAGE_FAILURE :: string where
  "SEND_MESSAGE_FAILURE \<equiv> ''SEND_MESSAGE_FAILURE''"

abbreviation SET_ACTIVE_CONVERSATION :: string where
  "SET_ACTIVE_CONVERSATION \<equiv> ''SET_ACTIVE_CONVERSATION''"

abbreviation LOAD_CONVERSATIONS :: string where
  "LOAD_CONVERSATIONS \<equiv> ''LOAD_CONVERSATIONS''"

abbreviation CREATE_CONVERSATION :: string where
  "CREATE_CONVERSATION \<equiv> ''CREATE_CONVERSATION''"

abbreviation DELETE_CONVERSATION :: string where
  "DELETE_CONVERSATION \<equiv> ''DELETE_CONVERSATION''"

abbreviation SET_INPUT_VALUE :: string where
  "SET_INPUT_VALUE \<equiv> ''SET_INPUT_VALUE''"

abbreviation SET_TYPING_INDICATOR :: string where
  "SET_TYPING_INDICATOR \<equiv> ''SET_TYPING_INDICATOR''"

abbreviation CLEAR_ERRORS :: string where
  "CLEAR_ERRORS \<equiv> ''CLEAR_ERRORS''"

abbreviation SET_SERVICE_STATUS :: string where
  "SET_SERVICE_STATUS \<equiv> ''SET_SERVICE_STATUS''"

abbreviation UPDATE_RATE_LIMIT :: string where
  "UPDATE_RATE_LIMIT \<equiv> ''UPDATE_RATE_LIMIT''"

definition CHAT_ACTIONS :: "string list" where
  "CHAT_ACTIONS =
     [SEND_MESSAGE_START, SEND_MESSAGE_SUCCESS, SEND_MESSAGE_FAILURE,
      SET_ACTIVE_CONVERSATION, LOAD_CONVERSATIONS, CREATE_CONVERSATION, DELETE_CONVERSATION,
      SET_INPUT_VALUE, SET_TYPING_INDICATOR, CLEAR_ERRORS,
      SET_SERVICE_STATUS, UPDATE_RATE_LIMIT]"

subsection \<open>The reducer\<close>

text \<open>
  \<^verbatim>\<open>chatReducer\<close>. Three cases read the clock (\<^verbatim>\<open>new Date()\<close>); the reading is the
  argument \<open>now\<close>. A case that reads a property of \<^verbatim>\<open>action.payload\<close> throws a
  \<^verbatim>\<open>TypeError\<close> when the action has no payload: \<open>Inl PayloadUndefined\<close>. A payload of
  another shape than the case reads has no typed next state (JavaScript would store
  \<^verbatim>\<open>undefined\<close> fields or throw later): \<open>Inl PayloadShape\<close>. A case that only stores or
  compares the payload returns a state for every payload; the exception in the model is
  \<^verbatim>\<open>LOAD_CONVERSATIONS\<close> with a payload that is not a list of conversations, whose next
  state in the source holds that payload in place of the list.

  \<open>strict_eq_id i p\<close> is \<^verbatim>\<open>i === p\<close> for an id \<open>i\<close> and a payload \<open>p\<close>. An absent
  active conversation is compared as \<^verbatim>\<open>null\<close>, which \<^verbatim>\<open>initialState\<close>, the provider's
  actions and the delete case store, and which is strictly equal to no payload of the
  model. (A send-success whose payload has no conversation id leaves \<^verbatim>\<open>undefined\<close> there;
  \<open>None\<close> does not tell the two apart, and they differ only under a delete action
  without payload.)
\<close>

fun strict_eq_id :: "js_id \<Rightarrow> payload \<Rightarrow> bool" where
  "strict_eq_id i (PId j) = (i = j)"
| "strict_eq_id (StrId s) (PString s') = (s = s')"
| "strict_eq_id i p = False"

datatype reducer_error = PayloadUndefined | PayloadShape

definition chatReducer :: "int \<Rightarrow> chat_state \<Rightarrow> action \<Rightarrow> reducer_error + chat_state" where
  "chatReducer now state action =
     (if act_type action = SEND_MESSAGE_START then
        (case act_payload action of
           PSendStart tempId content \<Rightarrow>
             Inr (state\<lparr>isSending := True, error := None,
                        messages := messages state @
                          [\<lparr>msg_id = tempId, msg_tempId = None, msg_type = USER,
                            msg_content = content, msg_timestamp = now,
                            isTemporary = True, msg_conversationId = None\<rparr>]\<rparr>)
         | PNone \<Rightarrow> Inl PayloadUndefined
         | _ \<Rightarrow> Inl PayloadShape)
      else if act_type action = SEND_MESSAGE_SUCCESS then
        (case act_payload action of
           PSendSuccess userMessage assistantMessage conversationId \<Rightarrow>
             Inr (state\<lparr>isSending := False, isTyping := PBool False, inputValue := PString [],
                        activeConversation := conversationId,
                        messages :=
                          filter (\<lambda>msg. Some (msg_id msg) \<noteq> msg_tempId userMessage) (messages state) @
                          [userMessage\<lparr>isTemporary := False\<rparr>, assistantMessage]\<rparr>)
         | PNone \<Rightarrow> Inl PayloadUndefined
         | _ \<Rightarrow> Inl PayloadShape)
      else if act_type action = SEND_MESSAGE_FAILURE then
        (case act_payload action of
           PSendFailure type err \<Rightarrow>
             Inr (state\<lparr>isSending := False, isTyping := PBool False, error := err,
                        lastError := Some \<lparr>le_type = type, le_message = err, le_timestamp = now\<rparr>,
                        messages := filter (\<lambda>msg. \<not> isTemporary msg) (messages state)\<rparr>)
         | PNone \<Rightarrow> Inl PayloadUndefined
         | _ \<Rightarrow> Inl PayloadShape)
      else if act_type action = SET_ACTIVE_CONVERSATION then
        (case act_payload action of
           PSetActive conversationId msgs \<Rightarrow>
             Inr (state\<lparr>activeConversation := conversationId,
                        messages := (case msgs of Some ms \<Rightarrow> ms | None \<Rightarrow> [])\<rparr>)
         | PNone \<Rightarrow> Inl PayloadUndefined
         | _ \<Rightarrow> Inl PayloadShape)
      else if act_type action = LOAD_CONVERSATIONS then
        (case act_payload action of
           PConversations convs \<Rightarrow> Inr (state\<lparr>conversations := convs\<rparr>)
         | _ \<Rightarrow> Inl PayloadShape)
      else if act_type action = CREATE_CONVERSATION then
        (case act_payload action of
           PConversation newConversation \<Rightarrow>
             Inr (state\<lparr>conversations := newConversation # conversations state,
                        activeConversation := Some (conv_id newConversation),
                        messages := []\<rparr>)
         | PNone \<Rightarrow> Inl PayloadUndefined
         | _ \<Rightarrow> Inl PayloadShape)
      else if act_type action = DELETE_CONVERSATION then
        (let conversationIdToDelete = act_payload action;
             state' = state\<lparr>conversations :=
                    filter (\<lambda>conv. \<not> strict_eq_id (conv_id conv) conversationIdToDelete)
                      (conversations state)\<rparr>
         in if (case activeConversation state of
                  Some i \<Rightarrow> strict_eq_id i conversationIdToDelete
                | None \<Rightarrow> False)
            then Inr (state'\<lparr>activeConversation := None, messages := []\<rparr>)
            else Inr state')
      else if act_type action = SET_INPUT_VALUE then
        Inr (state\<lparr>inputValue := act_payload action\<rparr>)
      else if act_type action = SET_TYPING_INDICATOR then
        Inr (state\<lparr>isTyping := act_payload action\<rparr>)
      else if act_type action = CLEAR_ERRORS then
        Inr (state\<lparr>error := None, lastError := None\<rparr>)
      else if act_type action = SET_SERVICE_STATUS then
        (case act_payload action of
           PStatus st timestamp \<Rightarrow>
             Inr (state\<lparr>serviceStatus := st,
                        lastHealthCheck := Some (case timestamp of Some t \<Rightarrow> t | None \<Rightarrow> now)\<rparr>)
         | PNone \<Rightarrow> Inl PayloadUndefined
         | _ \<Rightarrow> Inl PayloadShape)
      else if act_type action = UPDATE_RATE_LIMIT then
        Inr (state\<lparr>rateLimitInfo := act_payload action\<rparr>)
      else Inr state)"

subsection \<open>The provider\<close>

text \<open>
  The provider's functions dispatch actions and call the transport. A function of the
  provider can reject (an \<^verbatim>\<open>Error\<close> thrown before its \<^verbatim>\<open>try\<close>), and a dispatch can fail
  in the reducer; both are \<open>Inl\<close>.
\<close>

datatype provider_error = Rejected string | Reducer reducer_error

definition and_then :: "reducer_error + 'a \<Rightarrow> ('a \<Rightarrow> provider_error + 'b) \<Rightarrow> provider_error + 'b" where
  "and_then r f = (case r of Inl e \<Rightarrow> Inl (Reducer e) | Inr x \<Rightarrow> f x)"

text \<open>
  \<^verbatim>\<open>checkServiceStatus\<close>, the body of the 30-second poll. The third component of the
  result is what the call writes with \<^verbatim>\<open>console.warn\<close>.
\<close>

definition checkServiceStatus ::
    "network \<Rightarrow> chat_state \<Rightarrow> world \<Rightarrow> (reducer_error + chat_state) \<times> world \<times> string list" where
  "checkServiceStatus net state w =
     (case getStatus net w of
        (Inr result, w') \<Rightarrow>
          (chatReducer (clock w') state
             \<lparr>act_type = SET_SERVICE_STATUS,
              act_payload = PStatus (if success result then healthy else degraded) (Some (clock w'))\<rparr>,
           w', [])
      | (Inl err, w') \<Rightarrow>
          (chatReducer (clock w') state
             \<lparr>act_type = SET_SERVICE_STATUS,
              act_payload = PStatus down (Some (clock w'))\<rparr>,
           w', [''Service status check failed:'']))"

text \<open>
  \<^verbatim>\<open>generateTempId\<close> and \<^verbatim>\<open>generateMessageId\<close>: the prefix \<^verbatim>\<open>temp_\<close> or \<^verbatim>\<open>msg_\<close>, then
  the clock and random digits, which are the argument.
\<close>

definition generateTempId :: "jsstring \<Rightarrow> js_id" where
  "generateTempId suffix = StrId ([116, 101, 109, 112, 95] @ suffix)"

definition generateMessageId :: "jsstring \<Rightarrow> js_id" where
  "generateMessageId suffix = StrId ([109, 115, 103, 95] @ suffix)"

definition ellipsis :: "nat \<Rightarrow> jsstring \<Rightarrow> jsstring" where
  "ellipsis n content = take n content @ (if length content > n then [46, 46, 46] else [])"

text \<open>The \<^verbatim>\<open>catch\<close> block of the provider's \<^verbatim>\<open>sendMessage\<close>: the type and text to show.\<close>

definition describe_error :: "js_error \<Rightarrow> error_code \<times> error_message" where
  "describe_error err =
     (let errorType = (case err of ChatbotError c \<Rightarrow> c | _ \<Rightarrow> UNKNOWN_ERROR);
          errorMessage = (case err of
                            PlainError m \<Rightarrow> if m \<noteq> [] then MessageOf err
                                            else Fixed ''Failed to send message''
                          | _ \<Rightarrow> MessageOf err)
      in (errorType,
          (case errorType of
             RATE_LIMITED \<Rightarrow> RateLimitWait
           | UNAUTHORIZED \<Rightarrow> Fixed ''Your session has expired. Please log in again.''
           | NETWORK_ERROR \<Rightarrow>
               Fixed ''Unable to connect to the chat service. Please check your internet connection.''
           | TIMEOUT \<Rightarrow> Fixed ''The request timed out. Please try again.''
           | SERVICE_ERROR \<Rightarrow>
               Fixed ''The chat service is temporarily unavailable. Please try again in a moment.''
           | MESSAGE_TOO_LONG \<Rightarrow> Fixed ''Your message is too long. Please limit to 4000 characters.''
           | INVALID_INPUT \<Rightarrow> Fixed ''Please enter a valid message.''
           | _ \<Rightarrow> errorMessage)))"

text \<open>
  The provider's \<^verbatim>\<open>sendMessage(content)\<close>. \<open>state\<close> is the state of the render that
  created the callback and also the state the first dispatch meets: no other action is
  dispatched while the send is in flight, except the typing indicator of the 500 ms
  timer. The timer is cleared on the success path only; on the failure path it fires
  after the failure when the failure came sooner than 500 ms. At exactly 500 ms the
  timer is taken to fire first. The three suffixes are the random parts of the
  temporary id and of the two generated message ids. The result is the \<^verbatim>\<open>success\<close> flag
  of the returned object with the state and the world after the call.
\<close>

definition ctx_sendMessage ::
    "network \<Rightarrow> bool \<Rightarrow> jsstring \<times> jsstring \<times> jsstring \<Rightarrow> jsstring \<Rightarrow> chat_state \<Rightarrow> world
       \<Rightarrow> provider_error + (bool \<times> chat_state \<times> world)" where
  "ctx_sendMessage net isAuthenticated suffixes content state w =
     (if \<not> isAuthenticated then Inl (Rejected ''Authentication required'')
      else if content = [] \<or> length (trim content) = 0 then Inl (Rejected ''Message cannot be empty'')
      else
        (let tempId = generateTempId (fst suffixes);
             typing = \<lparr>act_type = SET_TYPING_INDICATOR, act_payload = PBool True\<rparr>
         in
         and_then (chatReducer (clock w) state
                     \<lparr>act_type = SEND_MESSAGE_START, act_payload = PSendStart tempId (trim content)\<rparr>)
          (\<lambda>s1.
            case sendMessage net (JSStr (trim content)) w of
              (Inr response, w') \<Rightarrow>
                and_then (if clock w' - clock w \<ge> 500
                          then chatReducer (clock w + 500) s1 typing else Inr s1)
                 (\<lambda>s2.
                   let userMessage =
                         \<lparr>msg_id = generateMessageId (fst (snd suffixes)),
                          msg_tempId = Some tempId, msg_type = USER,
                          msg_content = trim content, msg_timestamp = clock w',
                          isTemporary = False,
                          msg_conversationId = rp_conversationId response\<rparr>;
                       assistantMessage =
                         \<lparr>msg_id = (case rp_messageId response of
                                      Some i \<Rightarrow> if truthy_id (Some i) then i
                                                else generateMessageId (snd (snd suffixes))
                                    | None \<Rightarrow> generateMessageId (snd (snd suffixes))),
                          msg_tempId = None, msg_type = ASSISTANT,
                          msg_content = rp_reply response, msg_timestamp = rp_timestamp response,
                          isTemporary = False,
                          msg_conversationId = rp_conversationId response\<rparr>
                   in
                   and_then (chatReducer (clock w') s2
                               \<lparr>act_type = SEND_MESSAGE_SUCCESS,
                                act_payload = PSendSuccess userMessage assistantMessage
                                                (rp_conversationId response)\<rparr>)
                    (\<lambda>s3.
                      and_then
                        (case rp_conversationId response of
                           Some cid \<Rightarrow>
                             if \<not> truthy_id (activeConversation state) \<and> truthy_id (Some cid) then
                               chatReducer (clock w') s3
                                 \<lparr>act_type = LOAD_CONVERSATIONS,
                                  act_payload = PConversations
                                    (\<lparr>conv_id = cid, title = ellipsis 50 content, status = ACTIVE,
                                      created_at = clock w', updated_at = clock w',
                                      message_count = 2, last_message = ellipsis 100 content\<rparr>
                                     # conversations state)\<rparr>
                             else Inr s3
                         | None \<Rightarrow> Inr s3)
                        (\<lambda>s4. Inr (True, s4, w'))))
            | (Inl err, w') \<Rightarrow>
                and_then (if clock w' - clock w \<ge> 500
                          then chatReducer (clock w + 500) s1 typing else Inr s1)
                 (\<lambda>s2.
                   and_then (chatReducer (clock w') s2
                               \<lparr>act_type = SEND_MESSAGE_FAILURE,
                                act_payload = PSendFailure (fst (describe_error err))
                                                (Some (snd (describe_error err)))\<rparr>)
                    (\<lambda>s3.
                      and_then (if clock w' - clock w \<ge> 500 then Inr s3
                                else chatReducer (clock w + 500) s3 typing)
                       (\<lambda>s4. Inr (False, s4, w')))))))"

section \<open>Notions used in the statements\<close>

text \<open>
  The retries a configuration has behind it (\<^verbatim>\<open>_retryCount\<close>, with \<^verbatim>\<open>undefined\<close> read as
  0), the delay before retry number \<open>i + 1\<close>, whether the local rate check admits a
  request now, and the world after an admitted request has come back from the network.
\<close>

definition retries_done :: "request_config \<Rightarrow> nat" where
  "retries_done cfg = (case retryCount cfg of None \<Rightarrow> 0 | Some n \<Rightarrow> n)"

definition backoff :: "nat \<Rightarrow> nat" where
  "backoff i = retryDelay * 2 ^ i"

definition admitted :: "world \<Rightarrow> bool" where
  "admitted w \<longleftrightarrow> length (window (clock w) (tracker w)) < maxPerMinute"

definition after_request :: "network \<Rightarrow> world \<Rightarrow> world" where
  "after_request net w =
     w\<lparr>tracker := (tracker w)\<lparr>requests := window (clock w) (tracker w) @ [clock w]\<rparr>,
       clock := clock w + int (elapsed net (calls w)), calls := calls w + 1\<rparr>"

section \<open>Concrete inputs\<close>

text \<open>
  A world at time 0 with an empty rate window, and servers: one that answers every
  request with 503, one that answers 503 three times and then 200 with a reply, one
  that answers 200 at once, and one that cannot be reached.
\<close>

definition world0 :: world where
  "world0 = \<lparr>clock = 0, tracker = \<lparr>requests = []\<rparr>, calls = 0, delays = []\<rparr>"

definition no_data :: response_data where
  "no_data = \<lparr>reply = None, conversation_id = None, message_id = None\<rparr>"

definition ok_data :: response_data where
  "ok_data = \<lparr>reply = Some [111, 107], conversation_id = Some (NumId 7), message_id = Some (NumId 8)\<rparr>"

definition always_503 :: network where
  "always_503 = \<lparr>server = (\<lambda>n. Response 503 no_data), elapsed = (\<lambda>n. 100)\<rparr>"

definition recovers_after_three :: network where
  "recovers_after_three =
     \<lparr>server = (\<lambda>n. if n < 3 then Response 503 no_data else Response 200 ok_data),
      elapsed = (\<lambda>n. 100)\<rparr>"

definition always_200 :: network where
  "always_200 = \<lparr>server = (\<lambda>n. Response 200 ok_data), elapsed = (\<lambda>n. 100)\<rparr>"

definition unreachable :: network where
  "unreachable = \<lparr>server = (\<lambda>n. NoResponse), elapsed = (\<lambda>n. 100)\<rparr>"

text \<open>
  A world whose rate window is full (100 requests at time 0, seen at time 30000), and a
  server that answers 500 once and 200 from then on.
\<close>

definition saturated :: world where
  "saturated = \<lparr>clock = 30000, tracker = \<lparr>requests = replicate 100 0\<rparr>, calls = 0, delays = []\<rparr>"

definition fails_once :: network where
  "fails_once =
     \<lparr>server = (\<lambda>n. if n < 1 then Response 500 no_data else Response 200 ok_data),
      elapsed = (\<lambda>n. 100)\<rparr>"

text \<open>
  A chat state with an active conversation and one message of the assistant, and the
  state that a send-start leaves behind it at time 5.
\<close>

definition hello :: message where
  "hello = \<lparr>msg_id = NumId 1, msg_tempId = None, msg_type = ASSISTANT, msg_content = [104, 105],
     msg_timestamp = 0, isTemporary = False, msg_conversationId = Some (NumId 7)\<rparr>"

definition greeted :: chat_state where
  "greeted = (initialState 0)\<lparr>activeConversation := Some (NumId 7), messages := [hello]\<rparr>"

definition greeted_sending :: chat_state where
  "greeted_sending =
     greeted\<lparr>isSending := True,
       messages := [hello, \<lparr>msg_id = StrId [116], msg_tempId = None, msg_type = USER,
          msg_content = [104], msg_timestamp = 5, isTemporary = True, msg_conversationId = None\<rparr>]\<rparr>"

section \<open>Input validation of sendMessage\<close>

lemma trim_all_whitespace:
  assumes "\<forall>c\<in>set s. isWhiteSpace c"
  shows "trim s = []"
proof -
  from assms have "dropWhile isWhiteSpace s = []"
    by simp
  then show ?thesis
    unfolding trim_def by (simp only: rev.simps dropWhile.simps)
qed

lemma trim_empty_iff: "trim s = [] \<longleftrightarrow> (\<forall>c\<in>set s. isWhiteSpace c)"
proof
  assume "trim s = []"
  then have "dropWhile isWhiteSpace (rev (dropWhile isWhiteSpace s)) = []"
    by (simp add: trim_def)
  then have "\<forall>c\<in>set (dropWhile isWhiteSpace s). isWhiteSpace c"
    by simp
  then have "dropWhile isWhiteSpace s = []"
    by (metis hd_dropWhile hd_in_set)
  then show "\<forall>c\<in>set s. isWhiteSpace c"
    by simp
qed (rule trim_all_whitespace)

lemma invalid_input_JSStr: "invalid_input (JSStr s) \<longleftrightarrow> (\<forall>c\<in>set s. isWhiteSpace c)"
  by (auto simp: invalid_input_def trim_empty_iff)

lemma sendMessage_invalid_input:
  "invalid_input content \<Longrightarrow> sendMessage net content w = (Inl (ChatbotError INVALID_INPUT), w)"
  by (simp add: sendMessage_def sendMessage_try_def sendMessage_catch_def)

text \<open>
  Claim C9. An input that is the empty string, is not a string, or is a string of
  whitespace only is rejected with \<open>INVALID_INPUT\<close>. The world is returned as it was:
  no request reached the network, and the rate window was not touched.
\<close>

theorem invalid_input_rejected:
  assumes "content = JSStr [] \<or> (\<forall>s. content \<noteq> JSStr s) \<or>
           (\<exists>s. content = JSStr s \<and> (\<forall>c\<in>set s. isWhiteSpace c))"
  shows "sendMessage net content w = (Inl (ChatbotError INVALID_INPUT), w)"
proof -
  have "invalid_input content"
  proof (cases content)
    case (JSStr s)
    with assms show ?thesis by (auto simp: invalid_input_JSStr)
  qed (simp_all add: invalid_input_def)
  then show ?thesis by (rule sendMessage_invalid_input)
qed

theorem invalid_input_rejected_witness:
  "sendMessage always_503 (JSStr []) world0 = (Inl (ChatbotError INVALID_INPUT), world0) \<and>
   sendMessage always_503 (JSNum 5) world0 = (Inl (ChatbotError INVALID_INPUT), world0) \<and>
   sendMessage always_503 (JSStr [32, 9, 10]) world0 = (Inl (ChatbotError INVALID_INPUT), world0)"
  using invalid_input_rejected [of "JSStr []" always_503 world0]
    invalid_input_rejected [of "JSNum 5" always_503 world0]
    invalid_input_rejected [of "JSStr [32, 9, 10]" always_503 world0]
  by (simp add: isWhiteSpace_def)

text \<open>
  Claim C8, as the code has it. The emptiness test comes before the length test, so a
  string of more than 4000 code units is rejected with \<open>MESSAGE_TOO_LONG\<close> unless it
  consists of whitespace only, in which case the error is \<open>INVALID_INPUT\<close>. In both
  cases the world is returned as it was: no request reached the network.
\<close>

theorem too_long_rejected:
  "length s > 4000 \<Longrightarrow>
     sendMessage net (JSStr s) w =
       (Inl (ChatbotError (if (\<forall>c\<in>set s. isWhiteSpace c) then INVALID_INPUT else MESSAGE_TOO_LONG)), w)"
  by (simp add: sendMessage_def sendMessage_try_def sendMessage_catch_def invalid_input_JSStr)

theorem too_long_rejected_witness:
  "length (replicate 4001 (104 :: 16 word)) > 4000 \<and>
   sendMessage always_503 (JSStr (replicate 4001 104)) world0 =
     (Inl (ChatbotError MESSAGE_TOO_LONG), world0)"
  using too_long_rejected [of "replicate 4001 104" always_503 world0]
  by (simp add: isWhiteSpace_def)

text \<open>
  Claim C8 as stated fails on 4001 spaces: the input is longer than 4000 and the error
  is \<open>INVALID_INPUT\<close>, not \<open>MESSAGE_TOO_LONG\<close>.
\<close>

theorem too_long_whitespace_counterexample:
  "length (replicate 4001 (32 :: 16 word)) > 4000 \<and>
   fst (sendMessage always_503 (JSStr (replicate 4001 32)) world0) = Inl (ChatbotError INVALID_INPUT) \<and>
   fst (sendMessage always_503 (JSStr (replicate 4001 32)) world0) \<noteq> Inl (ChatbotError MESSAGE_TOO_LONG)"
proof -
  have "invalid_input (JSStr (replicate 4001 32))"
    by (simp add: invalid_input_JSStr isWhiteSpace_def)
  then show ?thesis
    by (simp add: sendMessage_invalid_input)
qed

section \<open>The rate-limit window\<close>

lemma check_then_record_length:
  assumes "length (requests tr) \<le> maxPerMinute"
  shows "length (requests (check_then_record tr ts)) \<le> maxPerMinute"
proof -
  have "length (filter (\<lambda>timestamp. timestamp > fst ts - 60000) (requests tr)) \<le> length (requests tr)"
    by (rule length_filter_le)
  with assms have "length (filter (\<lambda>timestamp. timestamp > fst ts - 60000) (requests tr)) \<le> maxPerMinute"
    by (meson le_trans)
  then show ?thesis
    by (auto simp: check_then_record_def canMakeRequest_def recordRequest_def Let_def)
qed

lemma foldl_check_then_record_length:
  "length (requests tr) \<le> maxPerMinute \<Longrightarrow>
     length (requests (foldl check_then_record tr ops)) \<le> maxPerMinute"
  by (induction ops arbitrary: tr) (simp_all add: check_then_record_length)

lemma window_length: "length (window now tr) \<le> length (requests tr)"
  by (simp add: window_def)

text \<open>The request interceptor is one check-then-record operation on the tracker.\<close>

lemma request_fulfilled_tracker:
  "tracker (snd (request_fulfilled cfg w)) = check_then_record (tracker w) (clock w, clock w)"
  by (simp add: request_fulfilled_def check_then_record_def split: prod.splits)

text \<open>
  Claim C7. From a tracker that holds at most \<open>maxPerMinute\<close> timestamps (the empty one
  the module starts with, in particular), any sequence of check-then-record operations,
  at any clock readings, leaves at most \<open>maxPerMinute\<close> timestamps in the tracker, and so
  at most that many in the trailing 60-second window of any instant \<open>now\<close>.
\<close>

theorem window_within_ceiling:
  "length (requests tr) \<le> maxPerMinute \<Longrightarrow>
     length (requests (foldl check_then_record tr ops)) \<le> maxPerMinute \<and>
     length (window now (foldl check_then_record tr ops)) \<le> maxPerMinute"
  using foldl_check_then_record_length [of tr ops]
    window_length [of now "foldl check_then_record tr ops"]
  by simp

theorem window_within_ceiling_witness:
  "length (requests \<lparr>requests = []\<rparr>) \<le> maxPerMinute \<and>
   length (requests (foldl check_then_record \<lparr>requests = []\<rparr>
             [(0, 0), (30000, 30001), (70000, 70000)])) \<le> maxPerMinute \<and>
   length (window 70005 (foldl check_then_record \<lparr>requests = []\<rparr>
             [(0, 0), (30000, 30001), (70000, 70000)])) \<le> maxPerMinute"
  using window_within_ceiling [of "\<lparr>requests = []\<rparr>" "[(0, 0), (30000, 30001), (70000, 70000)]" 70005]
  by simp

section \<open>The retry loop\<close>

lemma shouldRetry_no_response: "shouldRetry (AxiosError None ab cfg)"
  by (simp add: shouldRetry_def)

lemma shouldRetry_status:
  "shouldRetry (AxiosError (Some st) ab cfg) \<longleftrightarrow> ((st < 400 \<or> st = 429) \<and> ab) \<or> st \<ge> 500"
  by (auto simp: shouldRetry_def)

lemma retry_logic:
  assumes "shouldRetry e" "config e = Some cfg"
    "response_status e \<noteq> Some 401" "response_status e \<noteq> Some 429" "response_status e \<noteq> Some 422"
  shows "on_rejected e =
     (if retries_done cfg < maxRetries
      then Retry (cfg\<lparr>retryCount := Some (retries_done cfg + 1)\<rparr>) (retryDelay * 2 ^ retries_done cfg)
      else Throw e)"
proof (cases "retryCount cfg")
  case None
  with assms show ?thesis
    by (simp add: on_rejected_def retries_done_def Let_def backoffMultiplier_def maxRetries_def)
next
  case (Some n)
  with assms show ?thesis
    by (cases "n = 0") (simp_all add: on_rejected_def retries_done_def Let_def backoffMultiplier_def)
qed

lemma on_rejected_Retry_D:
  assumes "on_rejected e = Retry cfg' d"
  shows "\<exists>cfg. config e = Some cfg \<and> retries_done cfg < maxRetries \<and>
           cfg' = cfg\<lparr>retryCount := Some (retries_done cfg + 1)\<rparr> \<and> d = retryDelay * 2 ^ retries_done cfg"
proof -
  from assms have sr: "shouldRetry e" and st: "response_status e \<noteq> Some 401"
      "response_status e \<noteq> Some 429" "response_status e \<noteq> Some 422"
    by (simp_all add: on_rejected_def Let_def split: if_splits)
  from assms sr st obtain cfg where c: "config e = Some cfg"
    by (cases "config e") (simp_all add: on_rejected_def Let_def)
  from assms show ?thesis
    unfolding retry_logic [OF sr c st] using c by (simp split: if_splits)
qed

lemma retries_done_update [simp]: "retries_done (cfg\<lparr>retryCount := Some n\<rparr>) = n"
  by (simp add: retries_done_def)

lemma request_fulfilled_frame:
  assumes "request_fulfilled cfg w = (r, w1)"
  shows "calls w1 = calls w" "delays w1 = delays w" "clock w1 = clock w"
  using assms by (auto simp: request_fulfilled_def split: prod.splits if_splits)

lemma dispatchRequest_frame:
  assumes "dispatchRequest net cfg w = (r, w2)"
  shows "calls w2 = calls w + 1" "delays w2 = delays w" "tracker w2 = tracker w"
  using assms by (auto simp: dispatchRequest_def Let_def)

lemma wait_frame [simp]:
  "calls (wait d w) = calls w" "delays (wait d w) = delays w @ [d]" "tracker (wait d w) = tracker w"
  by (simp_all add: wait_def)

lemma chatbotClient_trace:
  "\<exists>k. retries_done cfg + k \<le> max maxRetries (retries_done cfg) \<and>
       delays (snd (chatbotClient net cfg w)) =
         delays w @ map backoff [retries_done cfg ..< retries_done cfg + k] \<and>
       calls (snd (chatbotClient net cfg w)) \<le> calls w + k + 1"
proof (induction net cfg w rule: chatbotClient.induct)
  case (1 net cfg w)
  obtain x y where rf: "request_fulfilled cfg w = (x, y)"
    by (cases "request_fulfilled cfg w")
  note f1 = request_fulfilled_frame [OF rf]
  show ?case
  proof (cases x)
    case (Inl a)
    with rf have "config a = None"
      using request_fulfilled_error by blast
    then obtain e' where "on_rejected a = Throw e'"
      using on_rejected_Retry_D [of a] by (cases "on_rejected a") auto
    with rf Inl have "chatbotClient net cfg w = (Inl e', y)"
      by (subst chatbotClient.simps) simp
    with f1 have "retries_done cfg + 0 \<le> max maxRetries (retries_done cfg) \<and>
       delays (snd (chatbotClient net cfg w)) =
         delays w @ map backoff [retries_done cfg ..< retries_done cfg + 0] \<and>
       calls (snd (chatbotClient net cfg w)) \<le> calls w + 0 + 1"
      by simp
    then show ?thesis by blast
  next
    case (Inr b)
    with rf have b: "b = cfg"
      using request_fulfilled_config by blast
    obtain xa ya where dr: "dispatchRequest net b y = (xa, ya)"
      by (cases "dispatchRequest net b y")
    note f2 = dispatchRequest_frame [OF dr]
    have stop: "retries_done cfg + 0 \<le> max maxRetries (retries_done cfg) \<and>
       delays (snd (chatbotClient net cfg w)) =
         delays w @ map backoff [retries_done cfg ..< retries_done cfg + 0] \<and>
       calls (snd (chatbotClient net cfg w)) \<le> calls w + 0 + 1"
      if "chatbotClient net cfg w = (r, ya)" for r
      using that f1 f2 by simp
    show ?thesis
    proof (cases xa)
      case response: (Inr response)
      with rf Inr dr have "chatbotClient net cfg w = (Inr response, ya)"
        by (subst chatbotClient.simps) simp
      from stop [OF this] show ?thesis by blast
    next
      case err: (Inl a)
      show ?thesis
      proof (cases "on_rejected a")
        case (Throw e')
        with rf Inr dr err have "chatbotClient net cfg w = (Inl e', ya)"
          by (subst chatbotClient.simps) simp
        from stop [OF this] show ?thesis by blast
      next
        case (Retry cfg' d)
        with rf Inr dr err have unfold: "chatbotClient net cfg w = chatbotClient net cfg' (wait d ya)"
          by (subst chatbotClient.simps) simp
        from dr err b have "config a = Some cfg"
          using dispatchRequest_error [of net b y a ya] by auto
        with on_rejected_Retry_D [OF Retry]
        have n: "retries_done cfg < maxRetries" and c': "retries_done cfg' = retries_done cfg + 1"
          and d: "d = backoff (retries_done cfg)"
          by (auto simp: backoff_def)
        from "1.IH"(2) [OF rf [symmetric] Inr dr [symmetric] err Retry]
        obtain k where k: "retries_done cfg' + k \<le> max maxRetries (retries_done cfg')"
          "delays (snd (chatbotClient net cfg' (wait d ya))) =
             delays (wait d ya) @ map backoff [retries_done cfg' ..< retries_done cfg' + k]"
          "calls (snd (chatbotClient net cfg' (wait d ya))) \<le> calls (wait d ya) + k + 1"
          by blast
        have upt: "[retries_done cfg ..< retries_done cfg + (k + 1)] =
                     retries_done cfg # [retries_done cfg + 1 ..< retries_done cfg + 1 + k]"
          by (simp add: upt_conv_Cons)
        from k n c' d f1 f2 have "retries_done cfg + (k + 1) \<le> max maxRetries (retries_done cfg) \<and>
           delays (snd (chatbotClient net cfg w)) =
             delays w @ map backoff [retries_done cfg ..< retries_done cfg + (k + 1)] \<and>
           calls (snd (chatbotClient net cfg w)) \<le> calls w + (k + 1) + 1"
          unfolding unfold upt by simp
        then show ?thesis by blast
      qed
    qed
  qed
qed

lemma request_fulfilled_admitted:
  "admitted w \<Longrightarrow>
     request_fulfilled cfg w =
       (Inr cfg, w\<lparr>tracker := (tracker w)\<lparr>requests := window (clock w) (tracker w) @ [clock w]\<rparr>\<rparr>)"
  by (simp add: request_fulfilled_def canMakeRequest_def recordRequest_def admitted_def window_def Let_def)

lemma request_fulfilled_refused:
  "\<not> admitted w \<Longrightarrow>
     request_fulfilled cfg w =
       (Inl (PlainError ''Rate limit exceeded. Please slow down your requests.''),
        w\<lparr>tracker := (tracker w)\<lparr>requests := window (clock w) (tracker w)\<rparr>\<rparr>)"
  by (simp add: request_fulfilled_def canMakeRequest_def admitted_def window_def Let_def)

lemma on_rejected_PlainError: "on_rejected (PlainError m) = Throw TypeError"
  by (simp add: on_rejected_def shouldRetry_def)

lemma chatbotClient_refused:
  "\<not> admitted w \<Longrightarrow>
     chatbotClient net cfg w =
       (Inl TypeError, w\<lparr>tracker := (tracker w)\<lparr>requests := window (clock w) (tracker w)\<rparr>\<rparr>)"
  by (subst chatbotClient.simps) (simp add: request_fulfilled_refused on_rejected_PlainError)

lemma chatbotClient_admitted:
  "admitted w \<Longrightarrow>
     chatbotClient net cfg w =
       (case settle (server net (calls w)) cfg of
          Inr response \<Rightarrow> (Inr response, after_request net w)
        | Inl e \<Rightarrow>
            (case on_rejected e of
               Throw e' \<Rightarrow> (Inl e', after_request net w)
             | Retry cfg' delay \<Rightarrow> chatbotClient net cfg' (wait delay (after_request net w))))"
  by (subst chatbotClient.simps)
     (simp add: request_fulfilled_admitted dispatchRequest_def after_request_def Let_def
           split: sum.splits decision.splits)

lemma after_request_frame [simp]:
  "calls (after_request net w) = calls w + 1"
  "delays (after_request net w) = delays w"
  "length (requests (tracker (after_request net w))) \<le> Suc (length (requests (tracker w)))"
  by (simp_all add: after_request_def window_def)

lemma room_admitted: "length (requests (tracker w)) < maxPerMinute \<Longrightarrow> admitted w"
  using window_length [of "clock w" "tracker w"] by (simp add: admitted_def)

lemma failed_attempt:
  assumes "length (requests (tracker w)) < maxPerMinute"
      "server net (calls w) = Response st body" "500 \<le> st"
  shows "if retries_done cfg < maxRetries then
      chatbotClient net cfg w =
        chatbotClient net (cfg\<lparr>retryCount := Some (retries_done cfg + 1)\<rparr>)
          (wait (backoff (retries_done cfg)) (after_request net w))
     else chatbotClient net cfg w = (Inl (AxiosError (Some st) False cfg), after_request net w)"
proof -
  from assms(3) have s: "settle (Response st body) cfg = Inl (AxiosError (Some st) False cfg)"
    by (simp add: settle_def)
  from assms(3) have sr: "shouldRetry (AxiosError (Some st) False cfg)"
    by (simp add: shouldRetry_status)
  from assms(3) have "on_rejected (AxiosError (Some st) False cfg) =
     (if retries_done cfg < maxRetries
      then Retry (cfg\<lparr>retryCount := Some (retries_done cfg + 1)\<rparr>) (retryDelay * 2 ^ retries_done cfg)
      else Throw (AxiosError (Some st) False cfg))"
    by (intro retry_logic [OF sr]) simp_all
  with s assms(2) show ?thesis
    by (simp add: chatbotClient_admitted [OF room_admitted [OF assms(1)]] backoff_def)
qed

lemma sendMessage_catch_5xx:
  "500 \<le> st \<Longrightarrow> sendMessage_catch (AxiosError (Some st) ab cfg) = ChatbotError SERVICE_ERROR"
  by (simp add: sendMessage_catch_def)

lemma sendMessage_client_error:
  assumes "\<not> invalid_input content" "content_length content \<le> 4000"
    "chatbotClient net \<lparr>retryCount = None\<rparr> w = (Inl e, w')"
  shows "sendMessage net content w = (Inl (sendMessage_catch e), w')"
  using assms by (simp add: sendMessage_def sendMessage_try_def)

text \<open>
  Claim C1, as the code has it. \<open>maxRetries\<close> counts retries, not requests: the first
  request and three retries make four requests. When the four answers are 503 (and the
  rate window has room for four requests), the caller of \<^verbatim>\<open>sendMessage\<close> gets
  \<open>SERVICE_ERROR\<close>, exactly four requests have reached the network, and the delays waited
  are 1000, 2000 and 4000 ms. There is no fifth request.
\<close>

theorem four_503_exhaust_retries:
  assumes valid: "\<not> invalid_input content" "content_length content \<le> 4000"
    and room: "length (requests (tracker w)) + 4 \<le> maxPerMinute"
    and srv: "\<forall>i<4. \<exists>body. server net (calls w + i) = Response 503 body"
  shows "\<exists>w'. sendMessage net content w = (Inl (ChatbotError SERVICE_ERROR), w') \<and>
               calls w' = calls w + 4 \<and> delays w' = delays w @ [1000, 2000, 4000]"
proof -
  define c0 :: request_config where "c0 = \<lparr>retryCount = None\<rparr>"
  define c1 where "c1 = c0\<lparr>retryCount := Some 1\<rparr>"
  define c2 where "c2 = c1\<lparr>retryCount := Some 2\<rparr>"
  define c3 where "c3 = c2\<lparr>retryCount := Some 3\<rparr>"
  define w1 where "w1 = wait (backoff 0) (after_request net w)"
  define w2 where "w2 = wait (backoff 1) (after_request net w1)"
  define w3 where "w3 = wait (backoff 2) (after_request net w2)"
  define w4 where "w4 = after_request net w3"
  have rd: "retries_done c0 = 0" "retries_done c1 = 1" "retries_done c2 = 2" "retries_done c3 = 3"
    by (simp_all add: c0_def c1_def c2_def c3_def retries_done_def)
  have calls: "calls w1 = calls w + 1" "calls w2 = calls w + 2" "calls w3 = calls w + 3"
      "calls w4 = calls w + 4"
    by (simp_all add: w1_def w2_def w3_def w4_def)
  have delays: "delays w4 = delays w @ [backoff 0, backoff 1, backoff 2]"
    by (simp add: w1_def w2_def w3_def w4_def)
  have l1: "length (requests (tracker w1)) \<le> length (requests (tracker w)) + 1"
    by (simp add: w1_def)
  have "length (requests (tracker w2)) \<le> length (requests (tracker w1)) + 1"
    by (simp add: w2_def)
  with l1 have l2: "length (requests (tracker w2)) \<le> length (requests (tracker w)) + 2"
    by simp
  have "length (requests (tracker w3)) \<le> length (requests (tracker w2)) + 1"
    by (simp add: w3_def)
  with l2 have l3: "length (requests (tracker w3)) \<le> length (requests (tracker w)) + 3"
    by simp
  from room l1 l2 l3 have r: "length (requests (tracker w)) < maxPerMinute"
      "length (requests (tracker w1)) < maxPerMinute"
      "length (requests (tracker w2)) < maxPerMinute"
      "length (requests (tracker w3)) < maxPerMinute"
    by simp_all
  from srv obtain b0 b1 b2 b3 where
    b: "server net (calls w) = Response 503 b0" "server net (calls w1) = Response 503 b1"
       "server net (calls w2) = Response 503 b2" "server net (calls w3) = Response 503 b3"
  proof -
    have "\<exists>body. server net (calls w + 0) = Response 503 body"
      "\<exists>body. server net (calls w + 1) = Response 503 body"
      "\<exists>body. server net (calls w + 2) = Response 503 body"
      "\<exists>body. server net (calls w + 3) = Response 503 body"
      using spec [OF srv, of 0] spec [OF srv, of 1] spec [OF srv, of 2] spec [OF srv, of 3]
      by simp_all
    with calls that show ?thesis
      by auto
  qed
  have "chatbotClient net c0 w = chatbotClient net c1 w1"
    using failed_attempt [OF r(1) b(1), of c0] rd
    by (simp add: maxRetries_def c1_def w1_def)
  also have "\<dots> = chatbotClient net c2 w2"
    using failed_attempt [OF r(2) b(2), of c1] rd
    by (simp add: maxRetries_def c2_def w2_def numeral_2_eq_2)
  also have "\<dots> = chatbotClient net c3 w3"
    using failed_attempt [OF r(3) b(3), of c2] rd
    by (simp add: maxRetries_def c3_def w3_def numeral_2_eq_2 numeral_3_eq_3)
  also have "\<dots> = (Inl (AxiosError (Some 503) False c3), w4)"
    using failed_attempt [OF r(4) b(4), of c3] rd
    by (simp add: maxRetries_def w4_def)
  finally have "chatbotClient net \<lparr>retryCount = None\<rparr> w = (Inl (AxiosError (Some 503) False c3), w4)"
    by (simp add: c0_def)
  from sendMessage_client_error [OF valid this]
  have "sendMessage net content w = (Inl (ChatbotError SERVICE_ERROR), w4)"
    by (simp add: sendMessage_catch_5xx)
  with calls delays show ?thesis
    by (simp add: backoff_def retryDelay_def)
qed

lemmas run_defs =
  sendMessage_def sendMessage_try_def sendMessage_catch_def invalid_input_def trim_def isWhiteSpace_def
  chatbotClient_admitted chatbotClient_refused admitted_def window_def after_request_def wait_def
  settle_def on_rejected_def shouldRetry_def maxPerMinute_def maxRetries_def retryDelay_def
  backoffMultiplier_def Let_def

text \<open>
  Claim C1 as stated fails: after three consecutive 503 responses the client sends a
  fourth request, and when that one succeeds the caller observes a success.
\<close>

theorem three_503_then_success_counterexample:
  "fst (sendMessage recovers_after_three (JSStr [104, 105]) world0) =
     Inr \<lparr>rp_reply = [111, 107], rp_conversationId = Some (NumId 7), rp_messageId = Some (NumId 8),
          rp_timestamp = 7400\<rparr> \<and>
   calls (snd (sendMessage recovers_after_three (JSStr [104, 105]) world0)) = 4 \<and>
   delays (snd (sendMessage recovers_after_three (JSStr [104, 105]) world0)) = [1000, 2000, 4000]"
  by (simp add: run_defs recovers_after_three_def world0_def ok_data_def no_data_def)

theorem four_503_exhaust_retries_witness:
  "\<exists>w'. sendMessage always_503 (JSStr [104, 105]) world0 = (Inl (ChatbotError SERVICE_ERROR), w') \<and>
               calls w' = 4 \<and> delays w' = [1000, 2000, 4000]"
  using four_503_exhaust_retries [of "JSStr [104, 105]" world0 always_503]
  by (simp add: invalid_input_def trim_def isWhiteSpace_def world0_def always_503_def maxPerMinute_def)

section \<open>The reducer\<close>

text \<open>
  Claim C6. The send-failure transition of any state yields the previous message list
  without its temporary messages: nothing is appended (the new list is the old one
  filtered), \<open>isSending\<close> is cleared and the error field holds the error of the payload.
  When the state is the one a send-start produced from a list without temporary
  messages, that earlier list is restored.
\<close>

theorem send_failure_drops_optimistic:
  "\<exists>state'.
     chatReducer now state \<lparr>act_type = SEND_MESSAGE_FAILURE, act_payload = PSendFailure ty err\<rparr> = Inr state' \<and>
     messages state' = filter (\<lambda>msg. \<not> isTemporary msg) (messages state) \<and>
     length (messages state') \<le> length (messages state) \<and>
     set (messages state') \<subseteq> set (messages state) \<and>
     \<not> isSending state' \<and> error state' = err \<and>
     (\<forall>t0 state0 tempId content.
        (\<forall>msg\<in>set (messages state0). \<not> isTemporary msg) \<and>
        chatReducer t0 state0 \<lparr>act_type = SEND_MESSAGE_START, act_payload = PSendStart tempId content\<rparr> = Inr state
        \<longrightarrow> messages state' = messages state0)"
  by (auto simp: chatReducer_def)

theorem send_failure_drops_optimistic_witness:
  "\<exists>state'.
     chatReducer 9 greeted_sending
        \<lparr>act_type = SEND_MESSAGE_FAILURE,
         act_payload = PSendFailure TIMEOUT (Some (Fixed ''The request timed out. Please try again.''))\<rparr> = Inr state' \<and>
     messages state' = [hello] \<and> \<not> isSending state' \<and>
     error state' = Some (Fixed ''The request timed out. Please try again.'')"
proof -
  have start: "chatReducer 5 greeted
      \<lparr>act_type = SEND_MESSAGE_START, act_payload = PSendStart (StrId [116]) [104]\<rparr> = Inr greeted_sending"
    by (simp add: chatReducer_def greeted_sending_def greeted_def initialState_def)
  have clean: "\<forall>msg\<in>set (messages greeted). \<not> isTemporary msg"
    by (simp add: greeted_def hello_def)
  from send_failure_drops_optimistic
         [of 9 greeted_sending TIMEOUT "Some (Fixed ''The request timed out. Please try again.'')"]
  obtain state' where
    r: "chatReducer 9 greeted_sending \<lparr>act_type = SEND_MESSAGE_FAILURE,
         act_payload = PSendFailure TIMEOUT (Some (Fixed ''The request timed out. Please try again.''))\<rparr> = Inr state'"
    and p: "\<not> isSending state'" "error state' = Some (Fixed ''The request timed out. Please try again.'')"
    and restore: "\<forall>t0 state0 tempId content.
        (\<forall>msg\<in>set (messages state0). \<not> isTemporary msg) \<and>
        chatReducer t0 state0 \<lparr>act_type = SEND_MESSAGE_START, act_payload = PSendStart tempId content\<rparr>
          = Inr greeted_sending
        \<longrightarrow> messages state' = messages state0"
    by blast
  from restore clean start have "messages state' = messages greeted"
    by blast
  then have "messages state' = [hello]"
    by (simp add: greeted_def)
  with r p show ?thesis
    by blast
qed

text \<open>
  Claim C10, as the code has it. (1) An action whose type is none of the twelve handled
  types leaves the state unchanged, whatever its payload and the time of the call.
  (2) An action of type clear-errors, delete-conversation, set-input-value,
  set-typing-indicator or update-rate-limit yields a state whatever its payload.
  (3) A send-start, send-success, send-failure, set-active-conversation,
  load-conversations, create-conversation or set-service-status action that carries the
  payload its case reads yields a state; send-start, send-failure and a
  set-service-status without payload timestamp write the time of the call into it (the
  timestamp of the new message, of \<open>lastError\<close>, and \<open>lastHealthCheck\<close>). (4) For every
  action of another type, and for a set-service-status whose payload has a timestamp,
  the result does not depend on the time of the call.
\<close>

theorem reducer_unchanged_total_time_free:
  "(act_type action \<notin> set CHAT_ACTIONS \<longrightarrow> chatReducer now state action = Inr state) \<and>
   (act_type action \<in> {CLEAR_ERRORS, DELETE_CONVERSATION, SET_INPUT_VALUE, SET_TYPING_INDICATOR,
                         UPDATE_RATE_LIMIT} \<longrightarrow>
      (\<exists>state'. chatReducer now state action = Inr state')) \<and>
   (\<exists>state' msg.
      chatReducer now state \<lparr>act_type = SEND_MESSAGE_START, act_payload = PSendStart tempId content\<rparr>
        = Inr state' \<and>
      messages state' = messages state @ [msg] \<and> msg_timestamp msg = now) \<and>
   (\<exists>state'.
      chatReducer now state
        \<lparr>act_type = SEND_MESSAGE_SUCCESS,
         act_payload = PSendSuccess userMessage assistantMessage conversationId\<rparr> = Inr state') \<and>
   (\<exists>state' e.
      chatReducer now state \<lparr>act_type = SEND_MESSAGE_FAILURE, act_payload = PSendFailure ty err\<rparr>
        = Inr state' \<and>
      lastError state' = Some e \<and> le_timestamp e = now) \<and>
   (\<exists>state'.
      chatReducer now state
        \<lparr>act_type = SET_ACTIVE_CONVERSATION, act_payload = PSetActive active msgs\<rparr> = Inr state') \<and>
   (\<exists>state'.
      chatReducer now state \<lparr>act_type = LOAD_CONVERSATIONS, act_payload = PConversations convs\<rparr>
        = Inr state') \<and>
   (\<exists>state'.
      chatReducer now state \<lparr>act_type = CREATE_CONVERSATION, act_payload = PConversation conv\<rparr>
        = Inr state') \<and>
   (\<exists>state'.
      chatReducer now state \<lparr>act_type = SET_SERVICE_STATUS, act_payload = PStatus st ts\<rparr>
        = Inr state' \<and>
      lastHealthCheck state' = Some (case ts of Some t \<Rightarrow> t | None \<Rightarrow> now)) \<and>
   (act_type action \<notin> {SEND_MESSAGE_START, SEND_MESSAGE_FAILURE, SET_SERVICE_STATUS} \<longrightarrow>
      chatReducer now state action = chatReducer now' state action) \<and>
   chatReducer now state \<lparr>act_type = SET_SERVICE_STATUS, act_payload = PStatus st (Some t)\<rparr>
     = chatReducer now' state \<lparr>act_type = SET_SERVICE_STATUS, act_payload = PStatus st (Some t)\<rparr>"
proof (intro conjI impI)
  assume "act_type action \<notin> set CHAT_ACTIONS"
  then show "chatReducer now state action = Inr state"
    by (simp add: chatReducer_def CHAT_ACTIONS_def)
next
  assume "act_type action \<in> {CLEAR_ERRORS, DELETE_CONVERSATION, SET_INPUT_VALUE,
            SET_TYPING_INDICATOR, UPDATE_RATE_LIMIT}"
  then show "\<exists>state'. chatReducer now state action = Inr state'"
    by (auto simp: chatReducer_def Let_def)
next
  assume "act_type action \<notin> {SEND_MESSAGE_START, SEND_MESSAGE_FAILURE, SET_SERVICE_STATUS}"
  then show "chatReducer now state action = chatReducer now' state action"
    by (simp add: chatReducer_def)
qed (simp_all add: chatReducer_def)

theorem reducer_unchanged_total_time_free_witness:
  "''RESET'' \<notin> set CHAT_ACTIONS \<and>
   chatReducer 3 greeted \<lparr>act_type = ''RESET'', act_payload = PNone\<rparr> = Inr greeted \<and>
   chatReducer 3 greeted \<lparr>act_type = ''RESET'', act_payload = PNone\<rparr> =
     chatReducer 4 greeted \<lparr>act_type = ''RESET'', act_payload = PNone\<rparr> \<and>
   (\<exists>state'. chatReducer 3 greeted \<lparr>act_type = DELETE_CONVERSATION, act_payload = PNone\<rparr> = Inr state') \<and>
   chatReducer 3 greeted \<lparr>act_type = DELETE_CONVERSATION, act_payload = PNone\<rparr> =
     chatReducer 4 greeted \<lparr>act_type = DELETE_CONVERSATION, act_payload = PNone\<rparr> \<and>
   (\<exists>state' msg.
      chatReducer 3 greeted \<lparr>act_type = SEND_MESSAGE_START, act_payload = PSendStart (StrId [116]) [104]\<rparr>
        = Inr state' \<and>
      messages state' = messages greeted @ [msg] \<and> msg_timestamp msg = 3)"
  using reducer_unchanged_total_time_free
      [where action = "\<lparr>act_type = ''RESET'', act_payload = PNone\<rparr>" and now = 3 and now' = 4
         and state = greeted and tempId = "StrId [116]" and content = "[104]"
         and userMessage = hello and assistantMessage = hello and conversationId = None
         and ty = TIMEOUT and err = None and active = None and msgs = None and convs = "[]"
         and conv = "\<lparr>conv_id = NumId 7, title = [], status = ACTIVE, created_at = 0,
                       updated_at = 0, message_count = 0, last_message = []\<rparr>"
         and st = healthy and ts = None and t = 0]
    reducer_unchanged_total_time_free
      [where action = "\<lparr>act_type = DELETE_CONVERSATION, act_payload = PNone\<rparr>" and now = 3
         and now' = 4 and state = greeted and tempId = "StrId [116]" and content = "[104]"
         and userMessage = hello and assistantMessage = hello and conversationId = None
         and ty = TIMEOUT and err = None and active = None and msgs = None and convs = "[]"
         and conv = "\<lparr>conv_id = NumId 7, title = [], status = ACTIVE, created_at = 0,
                       updated_at = 0, message_count = 0, last_message = []\<rparr>"
         and st = healthy and ts = None and t = 0]
  by (auto simp: CHAT_ACTIONS_def)

text \<open>
  A delete-conversation action without payload returns the state as it was: no
  conversation has the id \<^verbatim>\<open>undefined\<close>, and the active conversation is not \<^verbatim>\<open>undefined\<close>.
\<close>

lemma delete_without_payload:
  "chatReducer 3 greeted \<lparr>act_type = DELETE_CONVERSATION, act_payload = PNone\<rparr> = Inr greeted"
  by (simp add: chatReducer_def greeted_def)

text \<open>
  Claim C10 as stated fails in its second half. The reducer is not total on (state,
  action) pairs: a send-start action without payload throws. It is not a function of
  (state, action) alone: the same send-start on the same state at two clock readings
  gives two different states, because the case stamps the message with the time.
\<close>

theorem reducer_not_total_pure_counterexample:
  "chatReducer 0 (initialState 0) \<lparr>act_type = SEND_MESSAGE_START, act_payload = PNone\<rparr>
     = Inl PayloadUndefined \<and>
   chatReducer 0 (initialState 0)
       \<lparr>act_type = SEND_MESSAGE_START, act_payload = PSendStart (StrId [116]) [104]\<rparr>
     \<noteq> chatReducer 1 (initialState 0)
       \<lparr>act_type = SEND_MESSAGE_START, act_payload = PSendStart (StrId [116]) [104]\<rparr>"
  by (simp add: chatReducer_def initialState_def)

section \<open>The service-status poll\<close>

lemma getStatus_returns: "\<exists>result. fst (getStatus net w) = Inr result"
  by (simp add: getStatus_def split: prod.splits sum.splits)

text \<open>
  \<^verbatim>\<open>getStatus\<close> reports a failed request in its result and never throws, so the \<^verbatim>\<open>catch\<close>
  branch of the poll is never taken: no poll, whatever the network does, writes a
  warning or stores \<open>down\<close>.
\<close>

lemma poll_never_down:
  "\<exists>state' w'.
     checkServiceStatus net state w = (Inr state', w', []) \<and>
     (serviceStatus state' = healthy \<or> serviceStatus state' = degraded)"
  by (auto simp: checkServiceStatus_def getStatus_def dispatchRequest_def settle_def chatReducer_def
                 Let_def
           split: outcome.splits)

text \<open>
  Claim C4, evaluated where the service cannot be reached. The status request fails,
  \<^verbatim>\<open>getStatus\<close> returns \<^verbatim>\<open>{success: false}\<close>, and the poll stores \<open>degraded\<close> and writes
  no warning. The claim, the \<^verbatim>\<open>catch\<close> branch of \<^verbatim>\<open>checkServiceStatus\<close> and the sibling
  \<^verbatim>\<open>checkServiceConnectivity\<close> all say \<open>down\<close> for a failed poll.
\<close>

theorem unreachable_poll_stores_degraded:
  "fst (getStatus unreachable world0) = Inr \<lparr>success = False, status_of_error = None\<rparr> \<and>
   checkServiceStatus unreachable (initialState 0) world0 =
     (Inr ((initialState 0)\<lparr>serviceStatus := degraded, lastHealthCheck := Some 100\<rparr>),
      world0\<lparr>clock := 100, calls := 1\<rparr>, []) \<and>
   serviceStatus ((initialState 0)\<lparr>serviceStatus := degraded, lastHealthCheck := Some 100\<rparr>) \<noteq> down"
  by (simp add: checkServiceStatus_def getStatus_def dispatchRequest_def settle_def chatReducer_def
        Let_def unreachable_def world0_def)

section \<open>The local rate check in sendMessage\<close>

lemma sendMessage_refused:
  assumes "\<not> invalid_input content" "content_length content \<le> 4000" "\<not> admitted w"
  shows "sendMessage net content w =
           (Inl (ChatbotError NETWORK_ERROR),
            w\<lparr>tracker := (tracker w)\<lparr>requests := window (clock w) (tracker w)\<rparr>\<rparr>)"
  using sendMessage_client_error [OF assms(1,2) chatbotClient_refused [OF assms(3)]]
  by (simp add: sendMessage_catch_def)

lemma window_elapsed:
  assumes "\<forall>t\<in>set (requests (tracker w)). t \<le> clock w - 60000"
  shows "window (clock w) (tracker w) = []" "admitted w"
proof -
  from assms show "window (clock w) (tracker w) = []"
    by (auto simp: window_def filter_empty_conv)
  then show "admitted w"
    by (simp add: admitted_def maxPerMinute_def)
qed

lemma elapsed_window_send_succeeds:
  "fst (sendMessage always_200 (JSStr [104, 105]) (saturated\<lparr>clock := 60000\<rparr>)) =
     Inr \<lparr>rp_reply = [111, 107], rp_conversationId = Some (NumId 7), rp_messageId = Some (NumId 8),
          rp_timestamp = 60100\<rparr>"
proof -
  have "\<forall>t\<in>set (requests (tracker (saturated\<lparr>clock := 60000\<rparr>))). t \<le> clock (saturated\<lparr>clock := 60000\<rparr>) - 60000"
    by (simp add: saturated_def)
  note e = window_elapsed [OF this]
  have cc: "chatbotClient always_200 \<lparr>retryCount = None\<rparr> (saturated\<lparr>clock := 60000\<rparr>) =
          (Inr ok_data, after_request always_200 (saturated\<lparr>clock := 60000\<rparr>))"
    by (simp add: chatbotClient_admitted [OF e(2)] settle_def always_200_def)
  have t: "clock (after_request always_200 (saturated\<lparr>clock := 60000\<rparr>)) = 60100"
    by (simp add: after_request_def always_200_def saturated_def)
  show ?thesis
    by (simp add: sendMessage_def sendMessage_try_def invalid_input_JSStr isWhiteSpace_def cc t ok_data_def)
qed

text \<open>
  Claim C2, evaluated. With 100 timestamps in the trailing 60 seconds the request
  interceptor throws its rate-limit \<^verbatim>\<open>Error\<close> and no request reaches the network (the
  world is returned as it was), but the caller of \<^verbatim>\<open>sendMessage\<close> receives the code
  \<open>NETWORK_ERROR\<close>, which the provider shows as a connection problem. Once the clock
  has moved 60 seconds past the recorded timestamps, the same send passes the local
  check and succeeds.
\<close>

theorem full_window_send_reports_network_error:
  "length (window (clock saturated) (tracker saturated)) = maxPerMinute \<and>
   fst (request_fulfilled \<lparr>retryCount = None\<rparr> saturated) =
     Inl (PlainError ''Rate limit exceeded. Please slow down your requests.'') \<and>
   sendMessage always_200 (JSStr [104, 105]) saturated = (Inl (ChatbotError NETWORK_ERROR), saturated) \<and>
   describe_error (ChatbotError NETWORK_ERROR) =
     (NETWORK_ERROR, Fixed ''Unable to connect to the chat service. Please check your internet connection.'') \<and>
   fst (sendMessage always_200 (JSStr [104, 105]) (saturated\<lparr>clock := 60000\<rparr>)) =
     Inr \<lparr>rp_reply = [111, 107], rp_conversationId = Some (NumId 7), rp_messageId = Some (NumId 8),
          rp_timestamp = 60100\<rparr>"
proof -
  have win: "window (clock saturated) (tracker saturated) = replicate 100 0"
    by (simp add: window_def saturated_def)
  then have full: "\<not> admitted saturated"
    by (simp add: admitted_def maxPerMinute_def)
  have same: "saturated\<lparr>tracker := (tracker saturated)\<lparr>requests := replicate 100 0\<rparr>\<rparr> = saturated"
    by (simp add: saturated_def)
  have valid: "\<not> invalid_input (JSStr [104, 105])" "content_length (JSStr [104, 105]) \<le> 4000"
    by (simp_all add: invalid_input_JSStr isWhiteSpace_def)
  from sendMessage_refused [OF valid full, of always_200]
  have "sendMessage always_200 (JSStr [104, 105]) saturated = (Inl (ChatbotError NETWORK_ERROR), saturated)"
    by (simp add: win same)
  moreover have "fst (request_fulfilled \<lparr>retryCount = None\<rparr> saturated) =
     Inl (PlainError ''Rate limit exceeded. Please slow down your requests.'')"
    by (simp add: request_fulfilled_refused [OF full])
  moreover have "describe_error (ChatbotError NETWORK_ERROR) =
     (NETWORK_ERROR, Fixed ''Unable to connect to the chat service. Please check your internet connection.'')"
    by (simp add: describe_error_def)
  ultimately show ?thesis
    using win elapsed_window_send_succeeds by (simp add: maxPerMinute_def)
qed


section \<open>The retry policy\<close>

text \<open>
  Claim C3. (1) A response with a 4xx status other than 429 is never retried, whatever
  the retry counter. (2) For a network error (no response), a timeout and a response
  with status 500 or more, the handler retries while fewer than \<open>maxRetries\<close> = 3 retries
  have been made, and the delay before retry number \<open>k = retries_done cfg + 1\<close> is
  \<open>retryDelay * 2 ^ (k - 1)\<close>; after three retries it throws. (3) In every run of the
  client from a fresh configuration, the delays waited are the first \<open>k\<close> of 1000, 2000,
  4000 for some \<open>k \<le> 3\<close>, and at most \<open>k + 1\<close> requests reach the network. (4) A 5xx
  response followed by a 2xx response gives the caller the second response after
  exactly one delay of \<open>retryDelay\<close> and two requests.
\<close>

theorem retry_policy:
  "(400 \<le> st \<and> st < 500 \<and> st \<noteq> 429 \<longrightarrow>
      (\<exists>e'. on_rejected (AxiosError (Some st) ab cfg0) = Throw e')) \<and>
   (e = AxiosError None False cfg \<or> e = AxiosError None True cfg \<or>
      (\<exists>st'. e = AxiosError (Some st') ab' cfg \<and> 500 \<le> st') \<longrightarrow>
      on_rejected e =
        (if retries_done cfg < maxRetries
         then Retry (cfg\<lparr>retryCount := Some (retries_done cfg + 1)\<rparr>) (retryDelay * 2 ^ retries_done cfg)
         else Throw e)) \<and>
   (\<exists>k\<le>maxRetries.
      delays (snd (chatbotClient net \<lparr>retryCount = None\<rparr> w)) =
        delays w @ map (\<lambda>i. retryDelay * 2 ^ i) [0..<k] \<and>
      calls (snd (chatbotClient net \<lparr>retryCount = None\<rparr> w)) \<le> calls w + k + 1) \<and>
   (length (requests (tracker w)) + 2 \<le> maxPerMinute \<and>
    server net (calls w) = Response st1 b1 \<and> 500 \<le> st1 \<and>
    server net (calls w + 1) = Response st2 b2 \<and> 200 \<le> st2 \<and> st2 < 300 \<longrightarrow>
      (\<exists>w'. chatbotClient net \<lparr>retryCount = None\<rparr> w = (Inr b2, w') \<and>
            delays w' = delays w @ [retryDelay] \<and> calls w' = calls w + 2))"
proof (intro conjI impI)
  assume "400 \<le> st \<and> st < 500 \<and> st \<noteq> 429"
  then show "\<exists>e'. on_rejected (AxiosError (Some st) ab cfg0) = Throw e'"
    by (simp add: on_rejected_def shouldRetry_def Let_def)
next
  assume a: "e = AxiosError None False cfg \<or> e = AxiosError None True cfg \<or>
      (\<exists>st'. e = AxiosError (Some st') ab' cfg \<and> 500 \<le> st')"
  then have "shouldRetry e" "config e = Some cfg"
    "response_status e \<noteq> Some 401" "response_status e \<noteq> Some 429" "response_status e \<noteq> Some 422"
    by (auto simp: shouldRetry_no_response shouldRetry_status)
  then show "on_rejected e =
        (if retries_done cfg < maxRetries
         then Retry (cfg\<lparr>retryCount := Some (retries_done cfg + 1)\<rparr>) (retryDelay * 2 ^ retries_done cfg)
         else Throw e)"
    by (rule retry_logic)
next
  from chatbotClient_trace [of "\<lparr>retryCount = None\<rparr>" net w]
  obtain k where k: "k \<le> maxRetries"
    "delays (snd (chatbotClient net \<lparr>retryCount = None\<rparr> w)) = delays w @ map backoff [0..<k]"
    "calls (snd (chatbotClient net \<lparr>retryCount = None\<rparr> w)) \<le> calls w + k + 1"
    by (auto simp: retries_done_def)
  have "map backoff [0..<k] = map (\<lambda>i. retryDelay * 2 ^ i) [0..<k]"
    by (simp add: backoff_def)
  with k show "\<exists>k\<le>maxRetries.
      delays (snd (chatbotClient net \<lparr>retryCount = None\<rparr> w)) =
        delays w @ map (\<lambda>i. retryDelay * 2 ^ i) [0..<k] \<and>
      calls (snd (chatbotClient net \<lparr>retryCount = None\<rparr> w)) \<le> calls w + k + 1"
    by auto
next
  assume a: "length (requests (tracker w)) + 2 \<le> maxPerMinute \<and>
    server net (calls w) = Response st1 b1 \<and> 500 \<le> st1 \<and>
    server net (calls w + 1) = Response st2 b2 \<and> 200 \<le> st2 \<and> st2 < 300"
  define c0 :: request_config where "c0 = \<lparr>retryCount = None\<rparr>"
  define w1 where "w1 = wait (backoff 0) (after_request net w)"
  have r0: "length (requests (tracker w)) < maxPerMinute"
    using a by simp
  have "length (requests (tracker w1)) \<le> Suc (length (requests (tracker w)))"
    by (simp add: w1_def)
  with a have "length (requests (tracker w1)) < maxPerMinute"
    by simp
  then have adm: "admitted w1"
    by (rule room_admitted)
  have c: "calls w1 = calls w + 1"
    by (simp add: w1_def)
  have "chatbotClient net c0 w = chatbotClient net (c0\<lparr>retryCount := Some 1\<rparr>) w1"
    using failed_attempt [OF r0, of net st1 b1 c0] a
    by (simp add: c0_def retries_done_def maxRetries_def w1_def)
  also have "\<dots> = (Inr b2, after_request net w1)"
    using a c by (simp add: chatbotClient_admitted [OF adm] settle_def)
  finally have "chatbotClient net \<lparr>retryCount = None\<rparr> w = (Inr b2, after_request net w1)"
    by (simp add: c0_def)
  moreover have "delays (after_request net w1) = delays w @ [retryDelay]"
    "calls (after_request net w1) = calls w + 2"
    by (simp_all add: w1_def backoff_def)
  ultimately show "\<exists>w'. chatbotClient net \<lparr>retryCount = None\<rparr> w = (Inr b2, w') \<and>
            delays w' = delays w @ [retryDelay] \<and> calls w' = calls w + 2"
    by blast
qed

theorem retry_policy_witness:
  "(\<exists>e'. on_rejected (AxiosError (Some 404) False \<lparr>retryCount = None\<rparr>) = Throw e') \<and>
   on_rejected (AxiosError None True \<lparr>retryCount = Some 2\<rparr>) = Retry \<lparr>retryCount = Some 3\<rparr> 4000 \<and>
   (\<exists>k\<le>maxRetries.
      delays (snd (chatbotClient fails_once \<lparr>retryCount = None\<rparr> world0)) =
        delays world0 @ map (\<lambda>i. retryDelay * 2 ^ i) [0..<k] \<and>
      calls (snd (chatbotClient fails_once \<lparr>retryCount = None\<rparr> world0)) \<le> calls world0 + k + 1) \<and>
   (\<exists>w'. chatbotClient fails_once \<lparr>retryCount = None\<rparr> world0 = (Inr ok_data, w') \<and>
         delays w' = [1000] \<and> calls w' = 2)"
  using retry_policy [of 404 False "\<lparr>retryCount = None\<rparr>" "AxiosError None True \<lparr>retryCount = Some 2\<rparr>"
                 "\<lparr>retryCount = Some 2\<rparr>" True fails_once world0 500 no_data 200 ok_data]
  by (simp add: retries_done_def maxRetries_def retryDelay_def maxPerMinute_def fails_once_def world0_def
        numeral_2_eq_2)


section \<open>The first send of a conversation\<close>

lemma trim_Nil [simp]: "trim [] = []"
  by (simp add: trim_def)

lemma sendMessage_Inr_valid:
  assumes "sendMessage net content w = (Inr response, w')"
  shows "\<not> invalid_input content" "rp_reply response \<noteq> []"
  using assms
  by (auto simp: sendMessage_def sendMessage_try_def split: if_splits prod.splits sum.splits option.splits)

text \<open>
  Claim C5. In a state with no active conversation and no messages, a send that the
  transport answers with a reply and a conversation id (a truthy one: not 0, not the
  empty string) ends in a state whose active conversation is that id, whose
  conversation list is the old one with a new entry for that id in front, and whose
  message list is the user message followed by the assistant message.
\<close>

theorem first_send_creates_conversation:
  assumes auth: "isAuthenticated"
    and fresh: "activeConversation state = None" "messages state = []"
    and sent: "sendMessage net (JSStr (trim content)) w = (Inr response, w')"
    and cid: "rp_conversationId response = Some cid" "truthy_id (Some cid)"
  shows "\<exists>state'.
      ctx_sendMessage net isAuthenticated suffixes content state w = Inr (True, state', w') \<and>
      activeConversation state' = Some cid \<and>
      (\<exists>conv. conversations state' = conv # conversations state \<and> conv_id conv = cid) \<and>
      (\<exists>user assistant.
          messages state' = [user, assistant] \<and>
          msg_type user = USER \<and> msg_content user = trim content \<and> \<not> isTemporary user \<and>
          msg_type assistant = ASSISTANT \<and> msg_content assistant = rp_reply response)"
proof -
  from sendMessage_Inr_valid(1) [OF sent] have "trim (trim content) \<noteq> []"
    by (simp add: invalid_input_def)
  then have ne: "trim content \<noteq> []" "content \<noteq> []"
    by auto
  show ?thesis
  proof (cases "clock w' - clock w \<ge> 500")
    case True
    with auth fresh sent cid ne show ?thesis
      by (simp add: ctx_sendMessage_def and_then_def chatReducer_def generateTempId_def Let_def)
  next
    case False
    with auth fresh sent cid ne show ?thesis
      by (simp add: ctx_sendMessage_def and_then_def chatReducer_def generateTempId_def Let_def)
  qed
qed

theorem first_send_creates_conversation_witness:
  "\<exists>state'.
      ctx_sendMessage always_200 True ([49], [50], [51]) [32, 104, 105, 32] (initialState 0) world0 =
        Inr (True, state', \<lparr>clock = 100, tracker = \<lparr>requests = [0]\<rparr>, calls = 1, delays = []\<rparr>) \<and>
      activeConversation state' = Some (NumId 7) \<and>
      (\<exists>conv. conversations state' = [conv] \<and> conv_id conv = NumId 7) \<and>
      (\<exists>user assistant.
          messages state' = [user, assistant] \<and>
          msg_type user = USER \<and> msg_content user = [104, 105] \<and> \<not> isTemporary user \<and>
          msg_type assistant = ASSISTANT \<and> msg_content assistant = [111, 107])"
proof -
  have t: "trim [32, 104, 105, 32] = [104, 105]"
    by (simp add: trim_def isWhiteSpace_def)
  have sent: "sendMessage always_200 (JSStr (trim [32, 104, 105, 32])) world0 =
      (Inr \<lparr>rp_reply = [111, 107], rp_conversationId = Some (NumId 7), rp_messageId = Some (NumId 8),
            rp_timestamp = 100\<rparr>,
       \<lparr>clock = 100, tracker = \<lparr>requests = [0]\<rparr>, calls = 1, delays = []\<rparr>)"
    unfolding t by (simp add: run_defs always_200_def world0_def ok_data_def)
  have s0: "activeConversation (initialState 0) = None" "messages (initialState 0) = []"
    "conversations (initialState 0) = []"
    by (simp_all add: initialState_def)
  from first_send_creates_conversation [OF TrueI s0(1,2) sent, of "NumId 7" "([49], [50], [51])"]
  show ?thesis
    by (simp add: t s0)
qed


end
